theory Spec2Isabelle
  imports Complex_Main "HOL-Library.Log_Nat"
begin

section \<open>The univariate Kalman filter of KalmanFilter.ipynb\<close>

text \<open>
  The notebook's code cell defines two functions on Gaussians, each Gaussian a pair
  (mean, variance):
  \<^verbatim>\<open>
  def add_gaussians(x, P, u, Q):
      return (x+u, P+Q)
  def multiply_gaussians(z, R, x, P):
      kalman_gain = P/(P+R)
      residual = z - x
      return (x + kalman_gain*residual, (P*R)/(P+R))
  \<close>
  The functions are written once, over any number type with \<open>+\<close>, \<open>-\<close>, \<open>*\<close>, \<open>/\<close>
  and a zero, as the Python is. They are read at two types: at \<open>real\<close>, where the
  operations are exact, and at \<open>double\<close>, the binary64 numbers of a Python float, where
  every operation rounds and may overflow. \<open>/\<close> is Python's true division: it raises
  ZeroDivisionError on a zero divisor, at either type.
\<close>

subsection \<open>Errors\<close>

datatype py_error = ZeroDivisionError

type_synonym 'a gaussian = "'a \<times> 'a"

definition py_truediv :: "'a::{zero,inverse} \<Rightarrow> 'a \<Rightarrow> py_error + 'a" where
  "py_truediv a b = (if b = 0 then Inl ZeroDivisionError else Inr (a / b))"

subsection \<open>The two functions of the source\<close>

definition add_gaussians :: "'a::plus \<Rightarrow> 'a \<Rightarrow> 'a \<Rightarrow> 'a \<Rightarrow> 'a gaussian" where
  "add_gaussians x P u Q = (x + u, P + Q)"

text \<open>The first statement of \<open>multiply_gaussians\<close>: \<open>kalman_gain = P/(P+R)\<close>.\<close>

definition kalman_gain :: "'a::{zero,plus,inverse} \<Rightarrow> 'a \<Rightarrow> py_error + 'a" where
  "kalman_gain R P = py_truediv P (P + R)"

definition multiply_gaussians ::
  "'a::{zero,plus,minus,times,inverse} \<Rightarrow> 'a \<Rightarrow> 'a \<Rightarrow> 'a \<Rightarrow> py_error + 'a gaussian" where
  "multiply_gaussians z R x P =
     (case kalman_gain R P of
        Inl e \<Rightarrow> Inl e
      | Inr kg \<Rightarrow>
          (let residual = z - x in
           case py_truediv (P * R) (P + R) of
             Inl e \<Rightarrow> Inl e
           | Inr v \<Rightarrow> Inr (x + kg * residual, v)))"

subsection \<open>The filter as a sequence of calls\<close>

text \<open>
  The scalar filter holds one belief. \<open>predict\<close> is \<open>add_gaussians\<close> on the belief and
  the control input (u, Q); \<open>update\<close> is \<open>multiply_gaussians\<close> on the measurement (z, R)
  and the belief, in the argument order of the notebook's loop:
  \<^verbatim>\<open>
  x_pred.append(add_gaussians(x_est[i-1][0], x_est[i-1][1], u, Q))
  x_est.append(multiply_gaussians(z, R, x_pred[i][0], x_pred[i][1]))
  \<close>
\<close>

datatype 'a call = Predict 'a 'a | Update 'a 'a

fun predict :: "'a::plus gaussian \<Rightarrow> 'a \<Rightarrow> 'a \<Rightarrow> py_error + 'a gaussian" where
  "predict (mean, variance) u Q = Inr (add_gaussians mean variance u Q)"

fun update ::
  "'a::{zero,plus,minus,times,inverse} gaussian \<Rightarrow> 'a \<Rightarrow> 'a \<Rightarrow> py_error + 'a gaussian" where
  "update (mean, variance) z R = multiply_gaussians z R mean variance"

fun filter_call ::
  "'a::{zero,plus,minus,times,inverse} gaussian \<Rightarrow> 'a call \<Rightarrow> py_error + 'a gaussian" where
  "filter_call b (Predict u Q) = predict b u Q"
| "filter_call b (Update z R) = update b z R"

text \<open>
  A run threads the belief through the calls and records the belief after every call
  that returns. An exception ends the run: the beliefs recorded so far are kept and the
  exception is reported beside them.
\<close>

fun filter_run ::
  "'a::{zero,plus,minus,times,inverse} gaussian \<Rightarrow> 'a call list
     \<Rightarrow> 'a gaussian list \<times> py_error option" where
  "filter_run b [] = ([], None)"
| "filter_run b (c # cs) =
     (case filter_call b c of
        Inl e \<Rightarrow> ([], Some e)
      | Inr b' \<Rightarrow> (case filter_run b' cs of (tr, r) \<Rightarrow> (b' # tr, r)))"

text \<open>One time step of the driver: predict with (u, Q), then update with (z, R).\<close>

fun step_calls :: "'a \<times> 'a \<times> 'a \<times> 'a \<Rightarrow> 'a call list" where
  "step_calls (u, Q, z, R) = [Predict u Q, Update z R]"

definition scalar_filter_run ::
  "'a::{zero,plus,minus,times,inverse} gaussian \<Rightarrow> ('a \<times> 'a \<times> 'a \<times> 'a) list
     \<Rightarrow> 'a gaussian list \<times> py_error option" where
  "scalar_filter_run b ins = filter_run b (concat (map step_calls ins))"

text \<open>Inputs the specification calls valid: no negative noise variance.\<close>

fun valid_call :: "'a::{zero,ord} call \<Rightarrow> bool" where
  "valid_call (Predict u Q) = (0 \<le> Q)"
| "valid_call (Update z R) = (0 \<le> R)"

text \<open>Adjacent entries never grow.\<close>

fun non_increasing :: "'a::ord list \<Rightarrow> bool" where
  "non_increasing (a # b # rest) = (b \<le> a \<and> non_increasing (b # rest))"
| "non_increasing _ = True"

subsection \<open>Python floats\<close>

text \<open>
  A Python float is an IEEE 754 binary64 number: a finite value, an infinity or a
  not-a-number. A finite double is held by its exact value; the two zeros are one value,
  which no operation of the source tells apart (a division by either raises). Every
  arithmetic operation computes the exact result and rounds it to the nearest double,
  ties to the even significand; a rounded magnitude of \<open>2 ^ 1024\<close> or more is an
  infinity. \<open>+\<close> and \<open>*\<close> on floats never raise in Python, and \<open>/\<close> raises only on a
  zero divisor.
\<close>

datatype double = Fin real | PInf | NInf | NaN

definition pow2 :: "int \<Rightarrow> real" where
  "pow2 e = (if 0 \<le> e then 2 ^ nat e else 1 / 2 ^ nat (- e))"

text \<open>
  The binade of a positive \<open>x\<close> is the \<open>e\<close> with \<open>2 ^ e \<le> x < 2 ^ (e + 1)\<close>, found from
  the bit length of the integer part of \<open>x\<close> or of \<open>1 / x\<close>.
\<close>

definition binade :: "real \<Rightarrow> int" where
  "binade x =
     (if 1 \<le> x then int (floorlog 2 (nat \<lfloor>x\<rfloor>)) - 1
      else let k = int (floorlog 2 (nat \<lfloor>1 / x\<rfloor>))
           in if x * pow2 (k - 1) = 1 then 1 - k else - k)"

definition round_half_even :: "real \<Rightarrow> int" where
  "round_half_even x =
     (let f = \<lfloor>x\<rfloor>; d = x - of_int f
      in if d < 1 / 2 then f else if 1 / 2 < d then f + 1 else if even f then f else f + 1)"

text \<open>
  Rounding to binary64: 53 significant bits, so the spacing in the binade \<open>e\<close> is
  \<open>2 ^ (e - 52)\<close>; below the smallest normal binade \<open>-1022\<close> the spacing stays
  \<open>2 ^ (-1074)\<close>.
\<close>

definition fl :: "real \<Rightarrow> double" where
  "fl x =
     (if x = 0 then Fin 0
      else let e = max (binade \<bar>x\<bar>) (- 1022);
               ulp = pow2 (e - 52);
               y = of_int (round_half_even (x / ulp)) * ulp
           in if pow2 1024 \<le> \<bar>y\<bar> then (if 0 < x then PInf else NInf) else Fin y)"

fun is_pos :: "double \<Rightarrow> bool" where
  "is_pos (Fin a) = (0 < a)"
| "is_pos PInf = True"
| "is_pos NInf = False"
| "is_pos NaN = False"

fun double_add :: "double \<Rightarrow> double \<Rightarrow> double" where
  "double_add (Fin a) (Fin b) = fl (a + b)"
| "double_add NaN b = NaN"
| "double_add a NaN = NaN"
| "double_add PInf NInf = NaN"
| "double_add NInf PInf = NaN"
| "double_add PInf b = PInf"
| "double_add a PInf = PInf"
| "double_add NInf b = NInf"
| "double_add a NInf = NInf"

fun double_neg :: "double \<Rightarrow> double" where
  "double_neg (Fin a) = Fin (- a)"
| "double_neg PInf = NInf"
| "double_neg NInf = PInf"
| "double_neg NaN = NaN"

fun double_mul :: "double \<Rightarrow> double \<Rightarrow> double" where
  "double_mul (Fin a) (Fin b) = fl (a * b)"
| "double_mul a b =
     (if a = NaN \<or> b = NaN \<or> a = Fin 0 \<or> b = Fin 0 then NaN
      else if is_pos a = is_pos b then PInf else NInf)"

text \<open>
  Division. The quotient by a zero is never computed by the source, since Python raises
  first (\<open>py_truediv\<close>); it is given the value \<open>NaN\<close> here.
\<close>

fun double_div :: "double \<Rightarrow> double \<Rightarrow> double" where
  "double_div (Fin a) (Fin b) = (if b = 0 then NaN else fl (a / b))"
| "double_div NaN b = NaN"
| "double_div a NaN = NaN"
| "double_div (Fin a) b = Fin 0"
| "double_div a (Fin b) =
     (if b = 0 then NaN else if is_pos a = (0 < b) then PInf else NInf)"
| "double_div a b = NaN"

fun double_abs :: "double \<Rightarrow> double" where
  "double_abs (Fin a) = Fin \<bar>a\<bar>"
| "double_abs PInf = PInf"
| "double_abs NInf = PInf"
| "double_abs NaN = NaN"

text \<open>Comparisons: every comparison with a not-a-number is false.\<close>

fun double_le :: "double \<Rightarrow> double \<Rightarrow> bool" where
  "double_le (Fin a) (Fin b) = (a \<le> b)"
| "double_le NaN b = False"
| "double_le a NaN = False"
| "double_le NInf b = True"
| "double_le a PInf = True"
| "double_le a b = False"

fun double_less :: "double \<Rightarrow> double \<Rightarrow> bool" where
  "double_less (Fin a) (Fin b) = (a < b)"
| "double_less NaN b = False"
| "double_less a NaN = False"
| "double_less NInf b = (b \<noteq> NInf)"
| "double_less a PInf = (a \<noteq> PInf)"
| "double_less a b = False"

instantiation double :: "{zero,one,plus,minus,uminus,times,inverse,abs,ord}"
begin
definition zero_double_def: "0 = Fin 0"
definition one_double_def: "1 = Fin 1"
definition plus_double_def: "a + b = double_add a b"
definition uminus_double_def: "- a = double_neg a"
definition minus_double_def: "a - b = double_add a (double_neg b)"
definition times_double_def: "a * b = double_mul a b"
definition divide_double_def: "divide a b = double_div a b"
definition inverse_double_def: "inverse a = double_div (Fin 1) a"
definition abs_double_def: "\<bar>a\<bar> = double_abs a"
definition less_eq_double_def: "a \<le> b = double_le a b"
definition less_double_def: "a < b = double_less a b"
instance ..
end

subsection \<open>The matrix filter of the specification\<close>

text \<open>
  Modelled from the spec: LinearKalmanFilter (section 4.2 of the specification) has no
  code in the notebook, whose multivariate part is two prose cells and an empty code
  cell. The definitions below follow the specification's equations for \<open>predict\<close> and
  \<open>update\<close>, its dimension checks, its InvalidInputError for a negative noise
  covariance (section 7), its singular-innovation failure and its symmetrization of the
  covariance. Vectors are lists and matrices are lists of rows. A noise covariance is
  taken as negative when an entry of its diagonal is. The inverse of the innovation
  covariance is written out for \<open>k = 1\<close> only, the one measurement dimension the
  scalar/matrix equivalence law speaks about; there the condition number of a non-zero
  \<open>[[s]]\<close> is \<open>\<bar>s\<bar> * \<bar>1 / s\<bar>\<close>.
\<close>

type_synonym 'a vec = "'a list"
type_synonym 'a mat = "'a list list"
type_synonym 'a kalman_state = "'a vec \<times> 'a mat"

datatype kf_error =
  InvalidInputError | DimensionMismatchError | SingularInnovationCovarianceError

record 'a lkf_config =
  dim_n :: nat
  dim_k :: nat
  dim_m :: nat
  conditionNumberThreshold :: 'a
  symmetrizeAfterUpdate :: bool

definition is_mat :: "nat \<Rightarrow> nat \<Rightarrow> 'a mat \<Rightarrow> bool" where
  "is_mat r c M = (length M = r \<and> list_all (\<lambda>row. length row = c) M)"

definition diagonal :: "'a mat \<Rightarrow> 'a list" where
  "diagonal M = map (\<lambda>i. M ! i ! i) [0..<length M]"

definition negative_covariance :: "'a::{zero,ord} mat \<Rightarrow> bool" where
  "negative_covariance M = list_ex (\<lambda>d. d < 0) (diagonal M)"

definition dot :: "'a::{zero,plus,times} vec \<Rightarrow> 'a vec \<Rightarrow> 'a" where
  "dot a b = foldr (+) (map2 (*) a b) 0"

definition vec_add :: "'a::plus vec \<Rightarrow> 'a vec \<Rightarrow> 'a vec" where
  "vec_add a b = map2 (+) a b"

definition vec_sub :: "'a::minus vec \<Rightarrow> 'a vec \<Rightarrow> 'a vec" where
  "vec_sub a b = map2 (-) a b"

definition mat_vec :: "'a::{zero,plus,times} mat \<Rightarrow> 'a vec \<Rightarrow> 'a vec" where
  "mat_vec M v = map (\<lambda>row. dot row v) M"

definition mat_mul :: "'a::{zero,plus,times} mat \<Rightarrow> 'a mat \<Rightarrow> 'a mat" where
  "mat_mul A B = map (\<lambda>row. map (dot row) (transpose B)) A"

definition mat_add :: "'a::plus mat \<Rightarrow> 'a mat \<Rightarrow> 'a mat" where
  "mat_add A B = map2 vec_add A B"

definition mat_sub :: "'a::minus mat \<Rightarrow> 'a mat \<Rightarrow> 'a mat" where
  "mat_sub A B = map2 vec_sub A B"

definition mat_scale :: "'a::times \<Rightarrow> 'a mat \<Rightarrow> 'a mat" where
  "mat_scale c M = map (map ((*) c)) M"

definition mat_id :: "nat \<Rightarrow> 'a::{zero,one} mat" where
  "mat_id n = map (\<lambda>i. map (\<lambda>j. if i = j then 1 else 0) [0..<n]) [0..<n]"

fun invert_innovation :: "'a::{zero,one,times,inverse,abs,ord} \<Rightarrow> 'a mat \<Rightarrow> kf_error + 'a mat" where
  "invert_innovation thr [[s]] =
     (if s = 0 \<or> thr < \<bar>s\<bar> * \<bar>1 / s\<bar> then Inl SingularInnovationCovarianceError
      else Inr [[1 / s]])"
| "invert_innovation thr S = Inl DimensionMismatchError"

text \<open>\<open>predict(F, Q, B=None, u=None)\<close>: the control input is optional.\<close>

fun lkf_predict ::
  "'a::{zero,one,plus,times,ord} lkf_config \<Rightarrow> 'a kalman_state \<Rightarrow> 'a mat \<Rightarrow> 'a mat
     \<Rightarrow> ('a mat \<times> 'a vec) option \<Rightarrow> kf_error + 'a kalman_state" where
  "lkf_predict cfg (x, P) F Q ctl =
     (if \<not> (is_mat (dim_n cfg) (dim_n cfg) F \<and> is_mat (dim_n cfg) (dim_n cfg) Q)
      then Inl DimensionMismatchError
      else if negative_covariance Q then Inl InvalidInputError
      else
        let P' = mat_add (mat_mul (mat_mul F P) (transpose F)) Q in
        case ctl of
          None \<Rightarrow> Inr (mat_vec F x, P')
        | Some (B, u) \<Rightarrow>
            if \<not> (is_mat (dim_n cfg) (dim_m cfg) B \<and> length u = dim_m cfg)
            then Inl DimensionMismatchError
            else Inr (vec_add (mat_vec F x) (mat_vec B u), P'))"

fun lkf_update ::
  "'a::{zero,one,plus,minus,times,inverse,abs,ord} lkf_config \<Rightarrow> 'a kalman_state
     \<Rightarrow> 'a vec \<Rightarrow> 'a mat \<Rightarrow> 'a mat \<Rightarrow> kf_error + 'a kalman_state" where
  "lkf_update cfg (x, P) z H R =
     (if \<not> (length z = dim_k cfg \<and> is_mat (dim_k cfg) (dim_n cfg) H
             \<and> is_mat (dim_k cfg) (dim_k cfg) R)
      then Inl DimensionMismatchError
      else if negative_covariance R then Inl InvalidInputError
      else
        let y = vec_sub z (mat_vec H x);
            S = mat_add (mat_mul (mat_mul H P) (transpose H)) R
        in case invert_innovation (conditionNumberThreshold cfg) S of
             Inl e \<Rightarrow> Inl e
           | Inr S_inv \<Rightarrow>
               let K = mat_mul (mat_mul P (transpose H)) S_inv;
                   x' = vec_add x (mat_vec K y);
                   P' = mat_mul (mat_sub (mat_id (dim_n cfg)) (mat_mul K H)) P
               in Inr (x', if symmetrizeAfterUpdate cfg
                           then mat_scale (1 / (1 + 1)) (mat_add P' (transpose P'))
                           else P'))"

datatype 'a lkf_call = KPredict "'a mat" "'a mat" "('a mat \<times> 'a vec) option" | KUpdate "'a vec" "'a mat" "'a mat"

fun lkf_apply ::
  "'a::{zero,one,plus,minus,times,inverse,abs,ord} lkf_config \<Rightarrow> 'a kalman_state
     \<Rightarrow> 'a lkf_call \<Rightarrow> kf_error + 'a kalman_state" where
  "lkf_apply cfg s (KPredict F Q ctl) = lkf_predict cfg s F Q ctl"
| "lkf_apply cfg s (KUpdate z H R) = lkf_update cfg s z H R"

fun lkf_run ::
  "'a::{zero,one,plus,minus,times,inverse,abs,ord} lkf_config \<Rightarrow> 'a kalman_state
     \<Rightarrow> 'a lkf_call list \<Rightarrow> 'a kalman_state list \<times> kf_error option" where
  "lkf_run cfg s [] = ([], None)"
| "lkf_run cfg s (c # cs) =
     (case lkf_apply cfg s c of
        Inl e \<Rightarrow> ([], Some e)
      | Inr s' \<Rightarrow> (case lkf_run cfg s' cs of (tr, r) \<Rightarrow> (s' # tr, r)))"

text \<open>
  Scalars reinterpreted as 1x1 matrices: a belief becomes a state of dimension one, and
  a scalar call becomes the matrix call whose model matrices \<open>F\<close>, \<open>B\<close> and \<open>H\<close> are the
  1x1 identity.
\<close>

fun as_state :: "'a gaussian \<Rightarrow> 'a kalman_state" where
  "as_state (mean, variance) = ([mean], [[variance]])"

fun as_lkf_call :: "'a::one call \<Rightarrow> 'a lkf_call" where
  "as_lkf_call (Predict u Q) = KPredict [[1]] [[Q]] (Some ([[1]], [u]))"
| "as_lkf_call (Update z R) = KUpdate [z] [[1]] [[R]]"

section \<open>Properties of the scalar operations\<close>

lemma multiply_gaussians_eq:
  "multiply_gaussians z R x (P::real) =
     (if P + R = 0 then Inl ZeroDivisionError
      else Inr (x + P / (P + R) * (z - x), P * R / (P + R)))"
  by (simp add: multiply_gaussians_def kalman_gain_def py_truediv_def)


text \<open>
  Claim C1, as amended. For every belief (mean, variance) and every measurement (z, R)
  with variance + R \<noteq> 0, the scalar update operation returns the belief with
  kalman_gain = variance / (variance + R), residual = z - mean, new mean = mean +
  kalman_gain * residual, and new variance = variance * R / (variance + R).
\<close>

theorem update_formulas:
  "(variance::real) + R \<noteq> 0 \<Longrightarrow>
     (let kg = variance / (variance + R); residual = z - mean
      in kalman_gain R variance = Inr kg
         \<and> update (mean, variance) z R
             = Inr (mean + kg * residual, variance * R / (variance + R)))"
  by (simp add: multiply_gaussians_eq kalman_gain_def py_truediv_def)

text \<open>The zero-noise edge case of the specification: gain 1, mean 7, variance 0.\<close>

theorem update_formulas_witness:
  "(10::real) + 0 \<noteq> 0 \<and> kalman_gain 0 (10::real) = Inr 1
   \<and> update (0, 10::real) 7 0 = Inr (7, 0)"
  using update_formulas [of 10 0 7 0] by simp

text \<open>
  Claim C1 as stated covers every belief and measurement. With variance = 0 and R = 0
  the first division of \<open>multiply_gaussians\<close> has divisor 0 and no belief is returned.
\<close>

theorem update_returns_no_belief_at_zero_denominator:
  "update (0, 0::real) 7 0 = Inl ZeroDivisionError
   \<and> update (0, 0::real) 7 0 \<noteq> Inr (0 + 0 / (0 + 0) * (7 - 0), 0 * 0 / (0 + 0))"
  by (simp add: multiply_gaussians_eq)

text \<open>
  Claim C2. For every belief (mean, variance) and every control input (u, Q), the scalar
  predict operation returns the belief with new mean = mean + u and new variance =
  variance + Q. (At every number type: \<open>+\<close> is the type's own addition.)
\<close>

theorem predict_adds_mean_and_variance:
  "add_gaussians mean variance u Q = (mean + u, variance + Q)
   \<and> predict (mean, variance) u Q = Inr (mean + u, variance + Q)"
  by (simp add: add_gaussians_def)



text \<open>
  Claim C6, as amended. The scalar operations do not validate their noise argument and
  never fail with InvalidInputError. For Q < 0 predict returns (mean + u, variance + Q).
  For R < 0 update returns the belief of the update formulas when variance + R \<noteq> 0,
  and raises ZeroDivisionError when variance + R = 0.
\<close>

theorem negative_noise_is_not_rejected:
  "(Q < 0 \<longrightarrow> predict (mean, variance::real) u Q = Inr (mean + u, variance + Q))
   \<and> (R < 0 \<longrightarrow> update (mean, variance) z R =
         (if variance + R = 0 then Inl ZeroDivisionError
          else Inr (mean + variance / (variance + R) * (z - mean),
                    variance * R / (variance + R))))"
  by (simp add: multiply_gaussians_eq add_gaussians_def)

theorem negative_noise_is_not_rejected_witness:
  "(- 1 :: real) < 0 \<and> predict (0, 1::real) 0 (- 1) = Inr (0, 0)
   \<and> (- 2 :: real) < 0 \<and> update (0, 1::real) 3 (- 2) = Inr (- 3, 2)
   \<and> update (0, 1::real) 3 (- 1) = Inl ZeroDivisionError"
  using negative_noise_is_not_rejected [of "- 1" 0 1 0 "- 2" 3]
        negative_noise_is_not_rejected [of "- 1" 0 1 0 "- 1" 3]
  by simp

text \<open>
  Claim C6 as stated: a call with negative noise fails. Here predict with Q = -1 and
  update with R = -2 both return a belief.
\<close>

theorem negative_noise_returns_a_belief:
  "predict (0, 1::real) 0 (- 1) = Inr (0, 0) \<and> update (0, 1::real) 3 (- 2) = Inr (- 3, 2)"
  by (simp add: multiply_gaussians_eq add_gaussians_def)

text \<open>
  Claim C7, as amended. The scalar update has no noise floor: it raises
  ZeroDivisionError exactly when variance + R = 0, already at the division that
  computes the gain, and returns a belief in every other case.
\<close>

theorem update_raises_iff_zero_denominator:
  "(update (mean, variance::real) z R = Inl ZeroDivisionError) = (variance + R = 0)
   \<and> (kalman_gain R variance = Inl ZeroDivisionError) = (variance + R = 0)
   \<and> (\<exists>b. update (mean, variance) z R = Inr b) = (variance + R \<noteq> 0)"
  by (simp add: multiply_gaussians_eq kalman_gain_def py_truediv_def)

text \<open>
  Claim C7 as stated: no division by zero when variance and R are both zero. The gain
  is evaluated as 0 / 0 and the call raises.
\<close>

theorem update_divides_by_zero:
  "kalman_gain 0 (0::real) = Inl ZeroDivisionError
   \<and> update (1, 0::real) 2 0 = Inl ZeroDivisionError"
  by (simp add: multiply_gaussians_eq kalman_gain_def py_truediv_def)

text \<open>
  Claim C9. The scalar update is symmetric in its two Gaussians: for all z, R, x, P with
  P + R \<noteq> 0, multiply_gaussians(z, R, x, P) returns the same (mean, variance) pair as
  multiply_gaussians(x, P, z, R).
\<close>

theorem multiply_gaussians_symmetric:
  "(P::real) + R \<noteq> 0 \<Longrightarrow>
     multiply_gaussians z R x P = multiply_gaussians x P z R
     \<and> multiply_gaussians z R x P = Inr ((P * z + R * x) / (P + R), P * R / (P + R))"
  by (simp add: multiply_gaussians_eq field_simps)

theorem multiply_gaussians_symmetric_witness:
  "(100::real) + 1 \<noteq> 0
   \<and> multiply_gaussians 5 1 0 (100::real) = multiply_gaussians 0 100 5 1
   \<and> multiply_gaussians 5 1 0 (100::real) = Inr (500 / 101, 100 / 101)"
  using multiply_gaussians_symmetric [of 100 1 5 0] by (simp add: multiply_gaussians_eq)

text \<open>
  Claim C10, as amended. Under exact arithmetic, two consecutive scalar predict calls
  compose into one: applying
  add_gaussians with (u2, Q2) to the result of add_gaussians(x, P, u1, Q1) equals
  add_gaussians(x, P, u1 + u2, Q1 + Q2); in particular add_gaussians(x, P, 0, 0) = (x, P).
\<close>

theorem add_gaussians_compose:
  "(case add_gaussians x (P::real) u1 Q1 of (x', P') \<Rightarrow> add_gaussians x' P' u2 Q2)
     = add_gaussians x P (u1 + u2) (Q1 + Q2)
   \<and> add_gaussians x P 0 0 = (x, P)"
  by (simp add: add_gaussians_def)

section \<open>Properties of runs\<close>




subsection \<open>The convergence scenario\<close>

text \<open>
  After \<open>j\<close> rounds of predict(0, 0), update(5, 1) from (0, 100) the belief is
  (500 j / (100 j + 1), 100 / (100 j + 1)).
\<close>

lemma scenario_update:
  assumes "0 < (d::real)"
  shows "multiply_gaussians 5 1 (5 * (d - 1) / d) (100 / d :: real)
           = Inr (5 * (d + 99) / (d + 100), 100 / (d + 100))"
proof -
  from assms have nz: "d \<noteq> 0" "d + 100 \<noteq> 0" "100 + d \<noteq> 0" by simp_all
  have den: "100 / d + 1 = (d + 100) / d"
    using nz by (simp add: field_simps)
  have den_nz: "100 / d + 1 \<noteq> 0"
    using nz by (simp add: den)
  have var: "100 / d * 1 / (100 / d + 1) = 100 / (d + 100)"
    using nz by (simp add: den)
  have gain: "100 / d / (100 / d + 1) = 100 / (d + 100)"
    using nz by (simp add: den)
  have res: "5 - 5 * (d - 1) / d = 5 / d"
    using nz by (simp add: field_simps)
  have a: "5 * (d - 1) / d = 5 * (d - 1) * (d + 100) / (d * (d + 100))"
    using nz by simp
  have b: "100 / (d + 100) * (5 / d) = 500 / (d * (d + 100))"
    by (simp add: mult.commute)
  have "5 * (d - 1) / d + 100 / (d + 100) * (5 - 5 * (d - 1) / d)
          = 5 * (d - 1) / d + 100 / (d + 100) * (5 / d)"
    by (simp only: res)
  also have "\<dots> = (5 * (d - 1) * (d + 100) + 500) / (d * (d + 100))"
    by (simp only: a b add_divide_distrib)
  also have "\<dots> = (5 * (d + 99)) * d / ((d + 100) * d)"
    by (simp add: algebra_simps)
  also have "\<dots> = 5 * (d + 99) / (d + 100)"
    using nz by simp
  finally have mean: "5 * (d - 1) / d + 100 / (d + 100) * (5 - 5 * (d - 1) / d) = 5 * (d + 99) / (d + 100)" .
  have "multiply_gaussians 5 1 (5 * (d - 1) / d) (100 / d)
          = Inr (5 * (d - 1) / d + 100 / d / (100 / d + 1) * (5 - 5 * (d - 1) / d),
                 100 / d * 1 / (100 / d + 1))"
    by (simp only: multiply_gaussians_eq den_nz if_False)
  then show ?thesis
    by (simp only: gain var mean)
qed

lemma scenario_round:
  fixes B :: "nat \<Rightarrow> real gaussian"
  defines "B \<equiv> \<lambda>j. (500 * real j / (100 * real j + 1), 100 / (100 * real j + 1))"
  shows "scalar_filter_run (B j) (replicate (Suc n) (0, 0, 5, 1)) =
     (B j # B (Suc j) # fst (scalar_filter_run (B (Suc j)) (replicate n (0, 0, 5, 1))),
      snd (scalar_filter_run (B (Suc j)) (replicate n (0, 0, 5, 1))))"
proof -
  have p: "predict (B j) 0 0 = Inr (B j)"
    by (simp add: B_def add_gaussians_def)
  have "0 < 100 * real j + 1" by (simp add: add_nonneg_pos)
  from scenario_update [OF this]
  have u: "update (B j) 5 1 = Inr (B (Suc j))"
    by (simp add: B_def algebra_simps)
  show ?thesis
    by (simp add: scalar_filter_run_def p u split: prod.splits)
qed

lemma scenario_run:
  fixes B :: "nat \<Rightarrow> real gaussian"
  defines "B \<equiv> \<lambda>j. (500 * real j / (100 * real j + 1), 100 / (100 * real j + 1))"
  shows "snd (scalar_filter_run (B j) (replicate n (0, 0, 5, 1))) = None
    \<and> length (fst (scalar_filter_run (B j) (replicate n (0, 0, 5, 1)))) = 2 * n
    \<and> last (B j # fst (scalar_filter_run (B j) (replicate n (0, 0, 5, 1)))) = B (j + n)
    \<and> non_increasing (snd (B j) # map snd (fst (scalar_filter_run (B j) (replicate n (0, 0, 5, 1)))))"
proof (induction n arbitrary: j)
  case 0
  show ?case by (simp add: scalar_filter_run_def)
next
  case (Suc n)
  have step: "scalar_filter_run (B j) (replicate (Suc n) (0, 0, 5, 1)) =
     (B j # B (Suc j) # fst (scalar_filter_run (B (Suc j)) (replicate n (0, 0, 5, 1))),
      snd (scalar_filter_run (B (Suc j)) (replicate n (0, 0, 5, 1))))"
    unfolding B_def by (rule scenario_round)
  have mono: "snd (B (Suc j)) \<le> snd (B j)"
    by (simp add: B_def frac_le)
  from Suc.IH [of "Suc j"] mono show ?case
    unfolding step by simp
qed

text \<open>
  Claim C8. Starting from the belief (mean=0, variance=100) and alternating
  predict(u=0, Q=0) then update(z=5, R=1) for 50 steps, the final mean is within 0.01
  of 5, and the variance is non-increasing across the whole sequence of calls. (All 100
  calls return; the list of variances starts with the initial 100.)
\<close>

theorem convergence_scenario:
  "case scalar_filter_run (0, 100::real) (replicate 50 (0, 0, 5, 1)) of
     (tr, r) \<Rightarrow> r = None \<and> length tr = 100 \<and> \<bar>fst (last tr) - 5\<bar> < 0.01
                \<and> non_increasing (100 # map snd tr)"
proof -
  obtain tr r where run: "scalar_filter_run (0, 100::real) (replicate 50 (0, 0, 5, 1)) = (tr, r)"
    by (cases "scalar_filter_run (0, 100::real) (replicate 50 (0, 0, 5, 1))")
  from scenario_run [of 0 50] run
  have r: "r = None" and len: "length tr = 100"
    and fin: "last ((0, 100) # tr) = (25000 / 5001, 100 / 5001)"
    and mono: "non_increasing (100 # map snd tr)"
    by simp_all
  from len have "tr \<noteq> []" by auto
  with fin have "last tr = (25000 / 5001, 100 / 5001)" by simp
  then have "\<bar>fst (last tr) - 5\<bar> < 0.01" by simp
  with r len mono show ?thesis by (simp add: run)
qed

section \<open>Python floats: rounding and overflow\<close>

subsection \<open>Evaluating the rounding\<close>

lemma pow2_powr: "pow2 e = 2 powr (real_of_int e)"
  by (auto simp: pow2_def powr_realpow [symmetric] powr_minus divide_simps)


lemma pow2_add: "pow2 (a + b) = pow2 a * pow2 b"
  by (simp add: pow2_powr powr_add)







lemmas double_ops = zero_double_def one_double_def plus_double_def uminus_double_def
  minus_double_def times_double_def divide_double_def abs_double_def
  less_eq_double_def less_double_def

lemmas fl_compute = fl_def binade_def pow2_def round_half_even_def compute_floorlog Let_def






subsection \<open>The exact laws on floats\<close>

text \<open>
  Claim C10 as stated, on Python floats. With mean 0.1 and movements 0.2 and 0.3 (the
  doubles nearest to these decimals), and variance \<open>2 ^ 53\<close> with noise 1.0 and 1.0, two
  predict calls return (0.6000000000000001, 9007199254740992.0), the single call with
  the summed inputs returns (0.6, 9007199254740994.0).
\<close>

theorem float_predict_does_not_compose:
  "(case add_gaussians (Fin (3602879701896397 / 2 ^ 55)) (Fin 9007199254740992)
           (Fin (3602879701896397 / 2 ^ 54)) (Fin 1) of
      (x', P') \<Rightarrow> add_gaussians x' P' (Fin (5404319552844595 / 2 ^ 54)) (Fin 1))
     = (Fin (2702159776422298 / 2 ^ 52), Fin 9007199254740992)
   \<and> add_gaussians (Fin (3602879701896397 / 2 ^ 55)) (Fin 9007199254740992)
        (Fin (3602879701896397 / 2 ^ 54) + Fin (5404319552844595 / 2 ^ 54)) (Fin 1 + Fin 1)
     = (Fin (5404319552844595 / 2 ^ 53), Fin 9007199254740994)"
  by (simp add: add_gaussians_def double_ops fl_compute)



section \<open>The matrix filter at dimension one\<close>

lemma condition_number_1x1: "s \<noteq> 0 \<Longrightarrow> \<bar>s\<bar> * \<bar>1 / s\<bar> = (1::real)"
  by simp

lemma negative_covariance_1x1: "negative_covariance [[a]] = (a < 0)"
  by (simp add: negative_covariance_def diagonal_def)

lemma lkf_predict_1x1:
  assumes "dim_n cfg = 1" "dim_m cfg = 1"
  shows "lkf_predict cfg ([mean], [[variance]]) [[1]] [[Q]] (Some ([[1]], [u]))
           = (if Q < 0 then Inl InvalidInputError
              else Inr ([mean + u], [[variance + (Q::real)]]))"
  using assms
  by (simp add: is_mat_def negative_covariance_1x1 mat_add_def mat_mul_def mat_vec_def
      vec_add_def dot_def)

lemma lkf_update_1x1:
  assumes "dim_n cfg = 1" "dim_k cfg = 1" "1 \<le> conditionNumberThreshold cfg"
  shows "lkf_update cfg ([mean], [[variance]]) [z] [[1]] [[R]]
           = (if R < 0 then Inl InvalidInputError
              else if variance + R = 0 then Inl SingularInnovationCovarianceError
              else Inr ([mean + variance / (variance + R) * (z - mean)],
                        [[variance * R / (variance + (R::real))]]))"
proof -
  have dims: "length [z] = dim_k cfg \<and> is_mat (dim_k cfg) (dim_n cfg) [[1::real]]
                \<and> is_mat (dim_k cfg) (dim_k cfg) [[R]]"
    using assms by (simp add: is_mat_def)
  have S: "mat_add (mat_mul (mat_mul [[1]] [[variance]]) (transpose [[1]])) [[R]]
             = [[variance + R]]"
    by (simp add: mat_add_def mat_mul_def vec_add_def dot_def)
  have y: "vec_sub [z] (mat_vec [[1]] [mean]) = [z - mean]"
    by (simp add: vec_sub_def mat_vec_def dot_def)
  show ?thesis
  proof (cases "R < 0 \<or> variance + R = 0")
    case True
    with dims show ?thesis
      by (auto simp only: lkf_update.simps negative_covariance_1x1 S y Let_def
          invert_innovation.simps sum.case if_True if_False simp_thms)
  next
    case False
    then have nz: "variance + R \<noteq> 0" and nonneg: "\<not> R < 0" by simp_all
    have cond: "\<not> conditionNumberThreshold cfg < \<bar>variance + R\<bar> * \<bar>1 / (variance + R)\<bar>"
      using assms(3) condition_number_1x1 [OF nz] by simp
    have inv: "invert_innovation (conditionNumberThreshold cfg) [[variance + R]]
                 = Inr [[1 / (variance + R)]]"
      using nz cond by (simp only: invert_innovation.simps) simp
    have cov: "(1 - variance / (variance + R)) * variance = variance * R / (variance + R)"
      using nz by (simp add: field_simps)
    have K: "mat_mul (mat_mul [[variance]] (transpose [[1]])) [[1 / (variance + R)]]
               = [[variance / (variance + R)]]"
      by (simp add: mat_mul_def dot_def)
    have P': "mat_mul (mat_sub (mat_id 1) (mat_mul [[variance / (variance + R)]] [[1]]))
                [[variance]] = [[variance * R / (variance + R)]]"
      using cov by (simp add: mat_mul_def mat_sub_def mat_id_def vec_sub_def dot_def)
    have sym: "mat_scale (1 / (1 + 1)) (mat_add [[a]] (transpose [[a]])) = [[a]]" for a :: real
      by (simp add: mat_scale_def mat_add_def vec_add_def)
    have x': "vec_add [mean] (mat_vec [[variance / (variance + R)]] [z - mean])
                = [mean + variance / (variance + R) * (z - mean)]"
      by (simp add: vec_add_def mat_vec_def dot_def)
    show ?thesis
      using nz nonneg dims
      by (simp only: lkf_update.simps assms(1) negative_covariance_1x1 S inv K P' sym y x'
          Let_def sum.case if_False if_True simp_thms if_cancel)
  qed
qed

lemma lkf_apply_1x1:
  assumes "dim_n cfg = 1" "dim_k cfg = 1" "dim_m cfg = 1" "1 \<le> conditionNumberThreshold cfg"
    and "valid_call c"
  shows "lkf_apply cfg (as_state b) (as_lkf_call c) =
           (case filter_call b c of
              Inl e \<Rightarrow> Inl SingularInnovationCovarianceError
            | Inr b' \<Rightarrow> Inr (as_state (b' :: real gaussian)))"
proof (cases b)
  case (Pair mean variance)
  show ?thesis
  proof (cases c)
    case (Predict u Q)
    with Pair assms show ?thesis
      by (simp add: lkf_predict_1x1 add_gaussians_def del: lkf_predict.simps)
  next
    case (Update z R)
    with Pair assms show ?thesis
      by (simp add: lkf_update_1x1 multiply_gaussians_eq del: lkf_update.simps)
  qed
qed

lemma lkf_run_1x1:
  assumes "dim_n cfg = 1" "dim_k cfg = 1" "dim_m cfg = 1" "1 \<le> conditionNumberThreshold cfg"
  shows "list_all valid_call cs \<Longrightarrow>
         lkf_run cfg (as_state b) (map as_lkf_call cs) =
           (map as_state (fst (filter_run (b :: real gaussian) cs)),
            map_option (\<lambda>e. SingularInnovationCovarianceError) (snd (filter_run b cs)))"
proof (induction cs arbitrary: b)
  case Nil
  show ?case by simp
next
  case (Cons c cs)
  from Cons.prems have vc: "valid_call c" and vcs: "list_all valid_call cs" by simp_all
  show ?case
  proof (cases "filter_call b c")
    case (Inl e)
    then show ?thesis
      using lkf_apply_1x1 [OF assms vc, of b] by simp
  next
    case (Inr b')
    then show ?thesis
      using lkf_apply_1x1 [OF assms vc, of b] Cons.IH [OF vcs, of b']
      by (simp split: prod.splits)
  qed
qed

lemma valid_step_calls:
  "list_all (\<lambda>(u, Q, z, R). 0 \<le> Q \<and> 0 \<le> R) ins \<Longrightarrow>
     list_all valid_call (concat (map step_calls ins))"
  by (induction ins) auto

text \<open>
  Claim C3, as amended. Under exact arithmetic, for every sequence of scalar inputs
  (u, Q, z, R) with every Q \<ge> 0 and every R \<ge> 0, running the sequence through the
  scalar filter and through the matrix filter with dimensions n = k = m = 1 (the scalars
  reinterpreted as 1x1 matrices, the model matrices the 1x1 identity, the
  condition-number threshold at least 1) yields identical mean and variance sequences:
  the two traces are equal entry by entry, and one run stops with an error exactly where
  the other does.
\<close>

theorem scalar_matrix_equivalence:
  "dim_n cfg = 1 \<Longrightarrow> dim_k cfg = 1 \<Longrightarrow> dim_m cfg = 1 \<Longrightarrow> 1 \<le> conditionNumberThreshold cfg \<Longrightarrow>
   list_all (\<lambda>(u, Q, z, R). 0 \<le> Q \<and> 0 \<le> R) ins \<Longrightarrow>
   lkf_run cfg (as_state b) (map as_lkf_call (concat (map step_calls ins)))
     = (map as_state (fst (scalar_filter_run (b :: real gaussian) ins)),
        map_option (\<lambda>e. SingularInnovationCovarianceError) (snd (scalar_filter_run b ins)))"
  unfolding scalar_filter_run_def by (rule lkf_run_1x1) (simp_all add: valid_step_calls)

theorem scalar_matrix_equivalence_witness:
  "dim_n \<lparr>dim_n = 1, dim_k = 1, dim_m = 1, conditionNumberThreshold = 1000000::real, symmetrizeAfterUpdate = True\<rparr> = 1
   \<and> (1::real) \<le> 1000000
   \<and> list_all (\<lambda>(u, Q, z, R). 0 \<le> Q \<and> 0 \<le> R)
        ([(1, 2, 5, 1), (0, 0, 3, 0), (0, 0, 4, 0)] :: (real \<times> real \<times> real \<times> real) list)
   \<and> scalar_filter_run (0, 100::real) [(1, 2, 5, 1), (0, 0, 3, 0), (0, 0, 4, 0)]
       = ([(1, 102), (511 / 103, 102 / 103), (511 / 103, 102 / 103), (3, 0), (3, 0)], Some ZeroDivisionError)
   \<and> lkf_run \<lparr>dim_n = 1, dim_k = 1, dim_m = 1, conditionNumberThreshold = 1000000::real, symmetrizeAfterUpdate = True\<rparr>
        ([0], [[100]]) (map as_lkf_call (concat (map step_calls [(1, 2, 5, 1), (0, 0, 3, 0), (0, 0, 4, 0)])))
       = ([([1], [[102]]), ([511 / 103], [[102 / 103]]), ([511 / 103], [[102 / 103]]), ([3], [[0]]), ([3], [[0]])],
          Some SingularInnovationCovarianceError)"
  using scalar_matrix_equivalence [of "\<lparr>dim_n = 1, dim_k = 1, dim_m = 1, conditionNumberThreshold = 1000000, symmetrizeAfterUpdate = True\<rparr>"
               "[(1, 2, 5, 1), (0, 0, 3, 0), (0, 0, 4, 0)]" "(0, 100)"]
  by (simp add: scalar_filter_run_def multiply_gaussians_eq add_gaussians_def)


subsection \<open>Where the two filters differ\<close>

lemma negative_noise_runs_differ:
  "scalar_filter_run (0, 100::real) [(0, - 1, 5, 1)] = ([(0, 99), (99 / 20, 99 / 100)], None)
   \<and> lkf_run \<lparr>dim_n = 1, dim_k = 1, dim_m = 1, conditionNumberThreshold = 1000000::real,
               symmetrizeAfterUpdate = True\<rparr>
        (as_state (0, 100)) (map as_lkf_call (concat (map step_calls [(0, - 1, 5, 1)])))
       = ([], Some InvalidInputError)"
  by (simp add: scalar_filter_run_def multiply_gaussians_eq add_gaussians_def
      is_mat_def negative_covariance_def diagonal_def)

lemma float_runs_differ:
  "scalar_filter_run (Fin 0, Fin 1000000000) [(Fin 0, Fin 0, Fin 0, Fin 1)]
       = ([(Fin 0, Fin 1000000000), (Fin 0, Fin (9007199245733793 / 2 ^ 53))], None)
   \<and> lkf_run \<lparr>dim_n = 1, dim_k = 1, dim_m = 1, conditionNumberThreshold = Fin 1000000,
               symmetrizeAfterUpdate = True\<rparr>
        (as_state (Fin 0, Fin 1000000000))
        (map as_lkf_call (concat (map step_calls [(Fin 0, Fin 0, Fin 0, Fin 1)])))
       = ([([Fin 0], [[Fin 1000000000]]), ([Fin 0], [[Fin (549755859375 / 2 ^ 39)]])], None)
   \<and> 1 / 10 ^ 9 < \<bar>9007199245733793 / 2 ^ 53 - 549755859375 / 2 ^ 39 :: real\<bar>"
  by (simp add: scalar_filter_run_def multiply_gaussians_def kalman_gain_def py_truediv_def
      add_gaussians_def is_mat_def negative_covariance_def diagonal_def
      mat_add_def mat_sub_def mat_mul_def mat_vec_def mat_scale_def mat_id_def vec_add_def
      vec_sub_def dot_def double_ops fl_compute)

text \<open>
  Claim C3 as stated covers every input sequence and a tolerance of 1e-9 on floats.
  With Q = -1 the scalar filter returns its two beliefs while the matrix filter rejects
  the first call with InvalidInputError. On Python floats, from the belief (0.0, 1e9)
  with u = 0, Q = 0, z = 0, R = 1 the scalar update returns the variance
  0.999999999 and the matrix update returns 1.000000082740371: they differ by more
  than 1e-9.
\<close>

theorem scalar_matrix_runs_differ:
  "(scalar_filter_run (0, 100::real) [(0, - 1, 5, 1)] = ([(0, 99), (99 / 20, 99 / 100)], None)
    \<and> lkf_run \<lparr>dim_n = 1, dim_k = 1, dim_m = 1, conditionNumberThreshold = 1000000::real,
                symmetrizeAfterUpdate = True\<rparr>
         (as_state (0, 100)) (map as_lkf_call (concat (map step_calls [(0, - 1, 5, 1)])))
        = ([], Some InvalidInputError))
   \<and> (scalar_filter_run (Fin 0, Fin 1000000000) [(Fin 0, Fin 0, Fin 0, Fin 1)]
        = ([(Fin 0, Fin 1000000000), (Fin 0, Fin (9007199245733793 / 2 ^ 53))], None)
    \<and> lkf_run \<lparr>dim_n = 1, dim_k = 1, dim_m = 1, conditionNumberThreshold = Fin 1000000,
                symmetrizeAfterUpdate = True\<rparr>
         (as_state (Fin 0, Fin 1000000000))
         (map as_lkf_call (concat (map step_calls [(Fin 0, Fin 0, Fin 0, Fin 1)])))
        = ([([Fin 0], [[Fin 1000000000]]), ([Fin 0], [[Fin (549755859375 / 2 ^ 39)]])], None)
    \<and> 1 / 10 ^ 9 < \<bar>9007199245733793 / 2 ^ 53 - 549755859375 / 2 ^ 39 :: real\<bar>)"
  using negative_noise_runs_differ float_runs_differ by (rule conjI)

end
